theory Spec2Isabelle
  imports Main
begin

section \<open>Scheduled email reports: \<^verbatim>\<open>superset/tasks/schedules.py\<close>\<close>

subsection \<open>Exceptions\<close>

text \<open>
  The exceptions the module raises or handles by name, and those of the libraries it
  calls. \<open>KeyboardInterrupt\<close> stands for the exceptions that are not instances of
  \<^verbatim>\<open>Exception\<close>: \<^verbatim>\<open>except Exception\<close> does not catch them.
\<close>

datatype exn =
    SlackApiError
  | AssertionError
  | WebDriverException
  | URLError nat
  | IndexError
  | KeyError
  | AttributeError
  | UnboundLocalError
  | OverflowError
  | RuntimeError string
  | NoResultFound
  | SQLAlchemyError
  | SMTPException
  | KeyboardInterrupt

fun is_Exception :: "exn \<Rightarrow> bool" where
  "is_Exception KeyboardInterrupt = False"
| "is_Exception _ = True"

subsection \<open>Instants and durations\<close>

text \<open>
  A Python \<^verbatim>\<open>datetime\<close> is an instant with microsecond resolution and a
  \<^verbatim>\<open>timedelta\<close> a signed number of microseconds. Both are integers here: an instant
  is its number of microseconds since a fixed origin. (The calendar range of
  \<^verbatim>\<open>datetime\<close>, years 1 to 9999, is not modelled.)

  \<^verbatim>\<open>timedelta(days=days, seconds=seconds)\<close> carries the whole days of \<open>seconds\<close>
  over to \<open>days\<close> and raises \<^verbatim>\<open>OverflowError\<close> when the number of days is beyond
  999999999 either way.
\<close>

type_synonym datetime = int
type_synonym timedelta = int

definition timedelta :: "int \<Rightarrow> int \<Rightarrow> exn + timedelta" where
  "timedelta days seconds =
     (let d = days + seconds div 86400 in
      if abs d > 999999999 then Inl OverflowError
      else Inr ((days * 86400 + seconds) * 1000000))"

subsection \<open>The cron evaluator\<close>

text \<open>
  \<^verbatim>\<open>croniter.croniter(crontab, t)\<close> is a library object holding a current instant;
  each step of \<^verbatim>\<open>all_next\<close> moves it to the next instant at which the expression
  fires and yields that instant. The library is a parameter of the model: a function
  \<open>croniter crontab\<close> from the current instant to the next one. What the library
  promises is \<open>cron_evaluator\<close>: the next instant is the earliest instant after the
  current one at which the expression fires.
\<close>

definition cron_evaluator :: "(datetime \<Rightarrow> bool) \<Rightarrow> (datetime \<Rightarrow> datetime) \<Rightarrow> bool" where
  "cron_evaluator fires get_next \<longleftrightarrow>
     (\<forall>t. t < get_next t \<and> fires (get_next t) \<and>
          (\<forall>u. t < u \<and> u < get_next t \<longrightarrow> \<not> fires u))"

subsection \<open>\<^verbatim>\<open>next_schedules\<close>\<close>

text \<open>
  \<^verbatim>\<open>next_schedules\<close> is a generator. Its outcome is the list of the instants it
  yields, in order, and the way it ends: \<open>None\<close> when it is exhausted, or the exception
  it raises after the last yield.

  The body of the \<^verbatim>\<open>for eta in crons.all_next(datetime)\<close> loop: \<open>cur\<close> is the
  evaluator's current instant and \<open>previous\<close> the last yielded instant.
  \<^verbatim>\<open>timedelta(seconds=resolution)\<close> is built, and may raise, each time the third test
  is reached. The loop has no bound of its own, so the function is partial: \<open>None\<close> is
  a loop that never leaves.
\<close>

partial_function (option) next_schedules_loop ::
  "(datetime \<Rightarrow> datetime) \<Rightarrow> datetime \<Rightarrow> datetime \<Rightarrow> datetime \<Rightarrow> datetime \<Rightarrow> int
     \<Rightarrow> (datetime list \<times> exn option) option" where
  [code]: "next_schedules_loop get_next cur previous start_at stop_at resolution =
     (let eta = get_next cur in
      if eta \<ge> stop_at then Some ([], None)
      else if eta < start_at then
        next_schedules_loop get_next eta previous start_at stop_at resolution
      else
        case timedelta 0 resolution of
          Inl e \<Rightarrow> Some ([], Some e)
        | Inr spacing \<Rightarrow>
            if eta - previous < spacing then
              next_schedules_loop get_next eta previous start_at stop_at resolution
            else
              Option.bind
                (next_schedules_loop get_next eta eta start_at stop_at resolution)
                (\<lambda>(ys, ending). Some (eta # ys, ending)))"

text \<open>
  The two lines before the loop build \<^verbatim>\<open>timedelta(seconds=1)\<close> and
  \<^verbatim>\<open>timedelta(days=1)\<close> and subtract them from \<open>start_at\<close>.
\<close>

definition next_schedules ::
  "(string \<Rightarrow> datetime \<Rightarrow> datetime) \<Rightarrow> string \<Rightarrow> datetime \<Rightarrow> datetime \<Rightarrow> int
     \<Rightarrow> (datetime list \<times> exn option) option" where
  "next_schedules croniter crontab start_at stop_at resolution =
     (case timedelta 0 1 of
        Inl e \<Rightarrow> Some ([], Some e)
      | Inr second \<Rightarrow>
          (case timedelta 1 0 of
             Inl e \<Rightarrow> Some ([], Some e)
           | Inr day \<Rightarrow>
               next_schedules_loop (croniter crontab)
                 (start_at - second) (start_at - day) start_at stop_at resolution))"

text \<open>
  A small evaluator to run the model on: it knows the hourly expression
  \<^verbatim>\<open>0 * * * *\<close> and takes every other expression as \<^verbatim>\<open>* * * * *\<close> (every minute).
\<close>

definition cron_period :: "string \<Rightarrow> int" where
  "cron_period crontab = (if crontab = ''0 * * * *'' then 3600000000 else 60000000)"

definition sample_fires :: "string \<Rightarrow> datetime \<Rightarrow> bool" where
  "sample_fires crontab t \<longleftrightarrow> t mod cron_period crontab = 0"

definition sample_croniter :: "string \<Rightarrow> datetime \<Rightarrow> datetime" where
  "sample_croniter crontab t = (t div cron_period crontab + 1) * cron_period crontab"

subsection \<open>Recorded calls and effects\<close>

type_synonym bytes = string

text \<open>
  The email body is markup: either text the module formats itself, or the rendering of a
  template file with its arguments (template name, columns, rows, name, link).
\<close>

datatype markup =
    Text string
  | Rendered string "bytes list" "bytes list list" string string

type_synonym attachments = "(string \<times> bytes) list"

text \<open>
  Every call that leaves the module (browser, mail transport, chat client, HTTP, clock,
  logger) is recorded, with its arguments, in the order in which it is made.
  \<open>Send_email_smtp\<close> carries \<^verbatim>\<open>to, subject, body, data, images, bcc, mime_subtype,
  dryrun\<close>; \<open>Files_upload\<close> carries \<^verbatim>\<open>channels, file, initial_comment, title\<close>.
\<close>

datatype event =
    Log_info string
  | Sleep nat
  | Create_webdriver
  | Set_window_size nat nat
  | Driver_get string
  | Find_element_by_class_name string
  | Screenshot_as_png
  | Driver_screenshot
  | Driver_close
  | Driver_quit
  | Url_open string string
  | Send_email_smtp string string markup "attachments option" "attachments option"
      "string option" string bool
  | Files_upload string bytes string string

text \<open>
  A computation takes the calls recorded so far and returns its result, an exception
  (\<open>Inl\<close>) or a value (\<open>Inr\<close>), with the calls recorded after it.
\<close>

type_synonym 'a io = "event list \<Rightarrow> (exn + 'a) \<times> event list"

definition return :: "'a \<Rightarrow> 'a io" where
  "return x = (\<lambda>h. (Inr x, h))"

definition raise :: "exn \<Rightarrow> 'a io" where
  "raise e = (\<lambda>h. (Inl e, h))"

definition lift :: "exn + 'a \<Rightarrow> 'a io" where
  "lift r = (\<lambda>h. (r, h))"

definition io_bind :: "'a io \<Rightarrow> ('a \<Rightarrow> 'b io) \<Rightarrow> 'b io" where
  "io_bind m f = (\<lambda>h. case m h of (Inl e, h') \<Rightarrow> (Inl e, h') | (Inr x, h') \<Rightarrow> f x h')"

text \<open>
  An outside call: it is recorded, and its outcome is what the outside world answers
  to the calls made so far, this one last.
\<close>

definition call :: "event \<Rightarrow> (event list \<Rightarrow> exn + 'a) \<Rightarrow> 'a io" where
  "call ev outcome = (\<lambda>h. (outcome (h @ [ev]), h @ [ev]))"

text \<open>\<^verbatim>\<open>try: m  except <handles>: handler\<close>\<close>

definition try_except :: "'a io \<Rightarrow> (exn \<Rightarrow> bool) \<Rightarrow> 'a io \<Rightarrow> 'a io" where
  "try_except m handles handler =
     (\<lambda>h. case m h of
        (Inl e, h') \<Rightarrow> if handles e then handler h' else (Inl e, h')
      | (Inr x, h') \<Rightarrow> (Inr x, h'))"

text \<open>
  \<^verbatim>\<open>try: m  finally: fin\<close>: \<open>fin\<close> runs whatever \<open>m\<close> did; an exception of
  \<open>fin\<close> replaces the outcome of \<open>m\<close>.
\<close>

definition try_finally :: "'a io \<Rightarrow> unit io \<Rightarrow> 'a io" where
  "try_finally m fin =
     (\<lambda>h. case m h of
        (r, h') \<Rightarrow> (case fin h' of (Inl e, h'') \<Rightarrow> (Inl e, h'') | (Inr _, h'') \<Rightarrow> (r, h'')))"

text \<open>\<^verbatim>\<open>for x in xs: body(x)\<close>, left at the first exception.\<close>

fun for_each :: "'a list \<Rightarrow> ('a \<Rightarrow> unit io) \<Rightarrow> unit io" where
  "for_each [] body = return ()"
| "for_each (x # xs) body = io_bind (body x) (\<lambda>_. for_each xs body)"

definition sleep :: "nat \<Rightarrow> unit io" where
  "sleep n = call (Sleep n) (\<lambda>h. Inr ())"

definition logger_info :: "string \<Rightarrow> unit io" where
  "logger_info msg = call (Log_info msg) (\<lambda>h. Inr ())"

subsection \<open>The \<^verbatim>\<open>retry\<close> library\<close>

text \<open>
  \<^verbatim>\<open>retry\<close> and \<^verbatim>\<open>retry_call\<close> of the package \<^verbatim>\<open>retry.api\<close> run the same loop:
  \<^verbatim>\<open>
  _tries, _delay = tries, delay
  while _tries:
      try:
          return f()
      except exceptions as e:
          _tries -= 1
          if not _tries:
              raise
          time.sleep(_delay)
          _delay *= backoff
  \<close>
  \<open>tries\<close> is the number of attempts, \<open>delay\<close> the pause after the first failed
  attempt, \<open>backoff\<close> its multiplier. A loop that ends without an attempt returns
  \<^verbatim>\<open>None\<close>.
\<close>

fun retry_internal :: "'a io \<Rightarrow> (exn \<Rightarrow> bool) \<Rightarrow> nat \<Rightarrow> nat \<Rightarrow> nat \<Rightarrow> 'a option io" where
  "retry_internal f exceptions 0 delay backoff = return None"
| "retry_internal f exceptions (Suc tries) delay backoff =
     (\<lambda>h. case f h of
        (Inr x, h') \<Rightarrow> (Inr (Some x), h')
      | (Inl e, h') \<Rightarrow>
          if \<not> exceptions e then (Inl e, h')
          else if tries = 0 then (Inl e, h')
          else io_bind (sleep delay)
                 (\<lambda>_. retry_internal f exceptions tries (delay * backoff) backoff) h')"

text \<open>\<^verbatim>\<open>retry_call(f, tries=tries, delay=delay)\<close>: any \<^verbatim>\<open>Exception\<close>, backoff 1.\<close>

definition retry_call :: "'a io \<Rightarrow> nat \<Rightarrow> nat \<Rightarrow> 'a option io" where
  "retry_call f tries delay = retry_internal f is_Exception tries delay 1"

subsection \<open>Configuration, stored records and the outside world\<close>

record config =
  EMAIL_REPORT_BCC_ADDRESS :: "string option"
  EMAIL_PAGE_RENDER_WAIT :: nat
  EMAIL_REPORTS_SUBJECT_PREFIX :: string
  SCHEDULED_EMAIL_DEBUG_MODE :: bool
  SMTP_MAIL_FROM :: string
  WEBDRIVER_WINDOW_dashboard :: "nat \<times> nat"
  WEBDRIVER_WINDOW_slice :: "nat \<times> nat"

text \<open>
  The enumerations of \<^verbatim>\<open>superset.models.schedules\<close>, with the members the module
  names. The third constructor of each is a value that is none of them: the module has
  \<^verbatim>\<open>else\<close> branches for it.
\<close>

datatype EmailDeliveryType =
  EmailDeliveryType_attachment | EmailDeliveryType_inline | EmailDeliveryType_other

datatype SliceEmailReportFormat =
  SliceEmailReportFormat_visualization | SliceEmailReportFormat_data
  | SliceEmailReportFormat_other

datatype ScheduleType = ScheduleType_dashboard | ScheduleType_slice | ScheduleType_other

record Dashboard =
  Dashboard_id :: int
  Dashboard_title :: string

record Slice =
  Slice_id :: int
  Slice_name :: string

text \<open>
  A schedule row. The two schedule tables differ in the target they name
  (\<^verbatim>\<open>dashboard_id\<close>, or \<^verbatim>\<open>slice_id\<close> with \<^verbatim>\<open>email_format\<close>); one record holds both.
\<close>

record Schedule =
  Schedule_active :: bool
  Schedule_recipients :: "string option"
  Schedule_slack_channel :: "string option"
  Schedule_delivery_type :: EmailDeliveryType
  Schedule_deliver_as_group :: bool
  Schedule_dashboard_id :: int
  Schedule_slice_id :: int
  Schedule_email_format :: SliceEmailReportFormat

text \<open>
  What the module imports and calls but does not define. The pure helpers are functions;
  the store is read through lookups; and every call that can fail has an outcome that may
  depend on all the calls recorded so far (so a call can fail on the first attempt and
  succeed on the second, or fail for one recipient only).
\<close>

text \<open>
  \<open>get_scheduler_model\<close> gives the schedule table of a report type, by its name, or
  \<^verbatim>\<open>None\<close> for a type that has none (\<^verbatim>\<open>schedule_window\<close> tests for it);
  \<open>find_schedule\<close> is \<^verbatim>\<open>query(model_cls).get(schedule_id)\<close> on such a table.
\<close>

record env =
  get_email_address_list :: "string \<Rightarrow> string list"
  parseaddr :: "string \<Rightarrow> string \<times> string"
  make_msgid :: "string \<Rightarrow> string"
  get_url_path :: "string \<Rightarrow> bool \<Rightarrow> int \<Rightarrow> string"
  get_auth_cookies :: "string list"
  find_dashboard :: "int \<Rightarrow> Dashboard option"
  find_slice :: "int \<Rightarrow> Slice option"
  get_scheduler_model :: "ScheduleType \<Rightarrow> string option"
  find_schedule :: "string \<Rightarrow> int \<Rightarrow> Schedule option"
  on_create_webdriver :: "event list \<Rightarrow> exn + unit"
  on_set_window_size :: "event list \<Rightarrow> exn + unit"
  on_driver_get :: "event list \<Rightarrow> exn + unit"
  on_find_element :: "event list \<Rightarrow> exn + unit"
  on_screenshot_as_png :: "event list \<Rightarrow> exn + bytes"
  on_driver_screenshot :: "event list \<Rightarrow> exn + bytes"
  on_driver_close :: "event list \<Rightarrow> exn + unit"
  on_driver_quit :: "event list \<Rightarrow> exn + unit"
  on_url_open :: "event list \<Rightarrow> exn + nat \<times> bytes"
  on_send_email_smtp :: "event list \<Rightarrow> exn + unit"
  on_files_upload :: "event list \<Rightarrow> exn + bool"

subsection \<open>Python values: truthiness, \<^verbatim>\<open>or\<close>, splitting, formatting\<close>

definition truthy :: "string option \<Rightarrow> bool" where
  "truthy s = (case s of None \<Rightarrow> False | Some v \<Rightarrow> v \<noteq> [])"

definition py_or :: "string option \<Rightarrow> string option \<Rightarrow> string option" where
  "py_or a b = (if truthy a then a else b)"

text \<open>\<^verbatim>\<open>if s: f(s)\<close> for an optional string.\<close>

definition when_truthy :: "string option \<Rightarrow> (string \<Rightarrow> unit io) \<Rightarrow> unit io" where
  "when_truthy s f = (case s of None \<Rightarrow> return () | Some v \<Rightarrow> if v \<noteq> [] then f v else return ())"

definition str_opt :: "string option \<Rightarrow> string" where
  "str_opt s = (case s of None \<Rightarrow> ''None'' | Some v \<Rightarrow> v)"

definition nl :: string where
  "nl = [CHR 0x0A]"

text \<open>\<^verbatim>\<open>s.split(sep)\<close> for a one-character separator.\<close>

fun split_on :: "char \<Rightarrow> string \<Rightarrow> string \<Rightarrow> string list" where
  "split_on sep cur [] = [cur]"
| "split_on sep cur (c # cs) =
     (if c = sep then cur # split_on sep [] cs else split_on sep (cur @ [c]) cs)"

definition py_split :: "char \<Rightarrow> string \<Rightarrow> string list" where
  "py_split sep s = split_on sep [] s"

text \<open>
  \<^verbatim>\<open>bytes.splitlines()\<close>: lines end at \<^verbatim>\<open>\n\<close>, \<^verbatim>\<open>\r\<close> or \<^verbatim>\<open>\r\n\<close>; a final line
  break adds no empty line.
\<close>

fun splitlines_from :: "bytes \<Rightarrow> bytes \<Rightarrow> bytes list" where
  "splitlines_from cur [] = (if cur = [] then [] else [cur])"
| "splitlines_from cur (c # cs) =
     (if c = CHR 0x0A then cur # splitlines_from [] cs
      else if c = CHR 0x0D then
        (case cs of
           [] \<Rightarrow> [cur]
         | d # ds \<Rightarrow> if d = CHR 0x0A then cur # splitlines_from [] ds
                     else cur # splitlines_from [] cs)
      else splitlines_from (cur @ [c]) cs)"

definition splitlines :: "bytes \<Rightarrow> bytes list" where
  "splitlines content = splitlines_from [] content"

subsection \<open>Email and chat delivery\<close>

text \<open>
  The functions of the module keep their names, without the leading underscore of the
  private ones: \<open>deliver_email\<close> is \<^verbatim>\<open>_deliver_email\<close>, and so on.
\<close>

definition get_email_to_and_bcc ::
  "env \<Rightarrow> config \<Rightarrow> string \<Rightarrow> bool \<Rightarrow> (string \<times> string option) list" where
  "get_email_to_and_bcc env cfg recipients deliver_as_group =
     (let bcc = EMAIL_REPORT_BCC_ADDRESS cfg in
      if deliver_as_group then [(recipients, bcc)]
      else map (\<lambda>to. (to, bcc)) (get_email_address_list env recipients))"

definition send_email_smtp ::
  "env \<Rightarrow> string \<Rightarrow> string \<Rightarrow> markup \<Rightarrow> attachments option \<Rightarrow> attachments option
     \<Rightarrow> string option \<Rightarrow> string \<Rightarrow> bool \<Rightarrow> unit io" where
  "send_email_smtp env to subject body data images bcc mime_subtype dryrun =
     call (Send_email_smtp to subject body data images bcc mime_subtype dryrun)
       (on_send_email_smtp env)"

definition deliver_email ::
  "env \<Rightarrow> config \<Rightarrow> string \<Rightarrow> bool \<Rightarrow> string \<Rightarrow> markup \<Rightarrow> attachments option
     \<Rightarrow> attachments option \<Rightarrow> unit io" where
  "deliver_email env cfg recipients deliver_as_group subject body data images =
     for_each (get_email_to_and_bcc env cfg recipients deliver_as_group)
       (\<lambda>(to, bcc).
          send_email_smtp env to subject body data images bcc ''related''
            (SCHEDULED_EMAIL_DEBUG_MODE cfg))"

text \<open>
  The body of \<^verbatim>\<open>_deliver_slack\<close>. The outcome of the upload is an exception or
  whether \<^verbatim>\<open>response["file"]\<close> is truthy.
\<close>

definition deliver_slack_body :: "env \<Rightarrow> string \<Rightarrow> string \<Rightarrow> string \<Rightarrow> bytes \<Rightarrow> unit io" where
  "deliver_slack_body env slack_channel subject body file =
     io_bind (call (Files_upload slack_channel file body subject) (on_files_upload env))
       (\<lambda>response_file.
     io_bind (logger_info (''Sent the report to the slack '' @ slack_channel))
       (\<lambda>_.
     if response_file then return () else raise AssertionError))"

text \<open>\<^verbatim>\<open>@retry(SlackApiError, delay=10, backoff=2, tries=5)\<close>\<close>

definition deliver_slack :: "env \<Rightarrow> string \<Rightarrow> string \<Rightarrow> string \<Rightarrow> bytes \<Rightarrow> unit io" where
  "deliver_slack env slack_channel subject body file =
     io_bind
       (retry_internal (deliver_slack_body env slack_channel subject body file)
          (\<lambda>e. e = SlackApiError) 5 10 2)
       (\<lambda>_. return ())"

subsection \<open>Report content\<close>

record ReportContent =
  Content_body :: markup
  Content_data :: "attachments option"
  Content_images :: "attachments option"
  Content_slack_message :: string
  Content_slack_attachment :: bytes

text \<open>
  The texts the module formats. \<^verbatim>\<open>__\<close> is taken in the default locale, where it
  only substitutes the named arguments.
\<close>

definition slack_markdown :: "string \<Rightarrow> string \<Rightarrow> string" where
  "slack_markdown name url =
     nl @ ''        *'' @ name @ ''*'' @ nl @ nl @
     ''        <'' @ url @ ''|Explore in Superset>'' @ nl @ ''    ''"

definition explore_link :: "string \<Rightarrow> string" where
  \<open>explore_link url = ''<b><a href="'' @ url @ ''">Explore in Superset</a></b><p></p>''\<close>

definition explore_link_img :: "string \<Rightarrow> string \<Rightarrow> string" where
  \<open>explore_link_img url msgid =
     nl @ ''            '' @ explore_link url @ nl @
     ''            <img src="cid:'' @ msgid @ ''">'' @ nl @ ''            ''\<close>

definition generate_report_content ::
  "env \<Rightarrow> config \<Rightarrow> EmailDeliveryType \<Rightarrow> bytes \<Rightarrow> string \<Rightarrow> string \<Rightarrow> exn + ReportContent" where
  "generate_report_content env cfg delivery_type screenshot name url =
     (let slack_message = slack_markdown name url in
      case delivery_type of
        EmailDeliveryType_attachment \<Rightarrow>
          Inr \<lparr>Content_body = Text (explore_link url),
               Content_data = Some [(''screenshot.png'', screenshot)],
               Content_images = None,
               Content_slack_message = slack_message,
               Content_slack_attachment = screenshot\<rparr>
      | EmailDeliveryType_inline \<Rightarrow>
          (case py_split CHR ''@'' (snd (parseaddr env (SMTP_MAIL_FROM cfg))) of
             _ # domain # _ \<Rightarrow>
               let msgid = butlast (tl (make_msgid env domain)) in
               Inr \<lparr>Content_body = Text (explore_link_img url msgid),
                    Content_data = None,
                    Content_images = Some [(msgid, screenshot)],
                    Content_slack_message = slack_message,
                    Content_slack_attachment = screenshot\<rparr>
           | _ \<Rightarrow> Inl IndexError)
      | EmailDeliveryType_other \<Rightarrow> Inl UnboundLocalError)"

subsection \<open>The browser\<close>

text \<open>
  \<^verbatim>\<open>create_webdriver\<close> starts the browser, opens the welcome page and sets the session
  cookies. Here it is one outside call: it returns the driver or raises.
\<close>

definition create_webdriver :: "env \<Rightarrow> unit io" where
  "create_webdriver env = call Create_webdriver (on_create_webdriver env)"

definition set_window_size :: "env \<Rightarrow> nat \<times> nat \<Rightarrow> unit io" where
  "set_window_size env window =
     call (Set_window_size (fst window) (snd window)) (on_set_window_size env)"

definition driver_get :: "env \<Rightarrow> string \<Rightarrow> unit io" where
  "driver_get env url = call (Driver_get url) (on_driver_get env)"

definition find_element_by_class_name :: "env \<Rightarrow> string \<Rightarrow> unit io" where
  "find_element_by_class_name env name =
     call (Find_element_by_class_name name) (on_find_element env)"

text \<open>
  \<^verbatim>\<open>element.screenshot_as_png\<close>; \<open>element\<close> is what \<^verbatim>\<open>retry_call\<close> returned, and
  an attribute of \<^verbatim>\<open>None\<close> is an \<^verbatim>\<open>AttributeError\<close>.
\<close>

definition screenshot_as_png :: "env \<Rightarrow> unit option \<Rightarrow> bytes io" where
  "screenshot_as_png env element =
     (case element of
        None \<Rightarrow> raise AttributeError
      | Some _ \<Rightarrow> call Screenshot_as_png (on_screenshot_as_png env))"

definition driver_screenshot :: "env \<Rightarrow> bytes io" where
  "driver_screenshot env = call Driver_screenshot (on_driver_screenshot env)"

definition driver_close :: "env \<Rightarrow> unit io" where
  "driver_close env = call Driver_close (on_driver_close env)"

definition driver_quit :: "env \<Rightarrow> unit io" where
  "driver_quit env = call Driver_quit (on_driver_quit env)"

definition destroy_webdriver :: "env \<Rightarrow> unit io" where
  "destroy_webdriver env =
     io_bind
       (try_except (io_bind (retry_call (driver_close env) 2 0) (\<lambda>_. return ()))
          is_Exception (return ()))
       (\<lambda>_. try_except (driver_quit env) is_Exception (return ()))"

text \<open>
  The lines both screenshot paths share, from \<^verbatim>\<open>retry_call\<close> to the end of the
  \<^verbatim>\<open>try\<close> statement:
  \<^verbatim>\<open>
  element = retry_call(get_element, fargs=[name], tries=2, delay=EMAIL_PAGE_RENDER_WAIT)
  try:
      screenshot = element.screenshot_as_png
  except WebDriverException:
      screenshot = driver.screenshot()
  finally:
      destroy_webdriver(driver)
  \<close>
\<close>

definition element_screenshot :: "env \<Rightarrow> config \<Rightarrow> string \<Rightarrow> bytes io" where
  "element_screenshot env cfg name =
     io_bind
       (retry_call (find_element_by_class_name env name) 2 (EMAIL_PAGE_RENDER_WAIT cfg))
       (\<lambda>element.
     try_finally
       (try_except (screenshot_as_png env element) (\<lambda>e. e = WebDriverException)
          (driver_screenshot env))
       (destroy_webdriver env))"

subsection \<open>Delivering a dashboard\<close>

text \<open>\<^verbatim>\<open>query(...).filter_by(id=...).one()\<close>\<close>

definition one :: "'a option \<Rightarrow> 'a io" where
  "one row = (case row of None \<Rightarrow> raise NoResultFound | Some r \<Rightarrow> return r)"

definition deliver_dashboard ::
  "env \<Rightarrow> config \<Rightarrow> int \<Rightarrow> string option \<Rightarrow> string option \<Rightarrow> EmailDeliveryType \<Rightarrow> bool
     \<Rightarrow> unit io" where
  "deliver_dashboard env cfg dashboard_id recipients slack_channel delivery_type
       deliver_as_group =
     io_bind (one (find_dashboard env dashboard_id)) (\<lambda>dashboard.
     let dashboard_url =
           get_url_path env ''Superset.dashboard'' False (Dashboard_id dashboard);
         dashboard_url_user_friendly =
           get_url_path env ''Superset.dashboard'' True (Dashboard_id dashboard)
     in
     io_bind (create_webdriver env) (\<lambda>driver.
     io_bind (set_window_size env (WEBDRIVER_WINDOW_dashboard cfg)) (\<lambda>_.
     io_bind (driver_get env dashboard_url) (\<lambda>_.
     io_bind (sleep (EMAIL_PAGE_RENDER_WAIT cfg)) (\<lambda>_.
     io_bind (element_screenshot env cfg ''grid-container'') (\<lambda>screenshot.
     io_bind
       (lift (generate_report_content env cfg delivery_type screenshot
                (Dashboard_title dashboard) dashboard_url_user_friendly))
       (\<lambda>report_content.
     let subject = EMAIL_REPORTS_SUBJECT_PREFIX cfg @ '' '' @ Dashboard_title dashboard in
     io_bind
       (when_truthy recipients (\<lambda>recipients.
          deliver_email env cfg recipients deliver_as_group subject
            (Content_body report_content) (Content_data report_content)
            (Content_images report_content)))
       (\<lambda>_.
     when_truthy slack_channel (\<lambda>slack_channel.
       deliver_slack env slack_channel subject
         (Content_slack_message report_content)
         (Content_slack_attachment report_content))))))))))"

subsection \<open>Delivering a slice\<close>

text \<open>
  \<^verbatim>\<open>cookies["session"]\<close> after the loop over the session cookies: the last one, or a
  \<^verbatim>\<open>KeyError\<close> when there is none.
\<close>

definition session_cookie :: "env \<Rightarrow> exn + string" where
  "session_cookie env =
     (case get_auth_cookies env of [] \<Rightarrow> Inl KeyError | cs \<Rightarrow> Inr (last cs))"

definition get_slice_data :: "env \<Rightarrow> config \<Rightarrow> Slice \<Rightarrow> EmailDeliveryType \<Rightarrow> ReportContent io" where
  "get_slice_data env cfg slc delivery_type =
     (let slice_url = get_url_path env ''Superset.explore_json'' False (Slice_id slc);
          slice_url_user_friendly = get_url_path env ''Superset.slice'' True (Slice_id slc)
      in
      io_bind (lift (session_cookie env)) (\<lambda>cookie.
      io_bind (call (Url_open slice_url (''session='' @ cookie)) (on_url_open env))
        (\<lambda>(code, content).
      if code \<noteq> 200 then raise (URLError code)
      else
        let rows = map (py_split CHR '','') (splitlines content);
            slack_message = slack_markdown (Slice_name slc) slice_url_user_friendly
        in
        case delivery_type of
          EmailDeliveryType_inline \<Rightarrow>
            (case rows of
               [] \<Rightarrow> raise IndexError
             | columns # rows \<Rightarrow>
                 return
                   \<lparr>Content_body =
                      Rendered ''superset/reports/slice_data.html'' columns rows
                        (Slice_name slc) slice_url_user_friendly,
                    Content_data = None,
                    Content_images = None,
                    Content_slack_message = slack_message,
                    Content_slack_attachment = content\<rparr>)
        | EmailDeliveryType_attachment \<Rightarrow>
            return
              \<lparr>Content_body = Text (explore_link slice_url_user_friendly),
               Content_data = Some [(Slice_name slc @ ''.csv'', content)],
               Content_images = None,
               Content_slack_message = slack_message,
               Content_slack_attachment = content\<rparr>
        | EmailDeliveryType_other \<Rightarrow> raise UnboundLocalError)))"

definition get_slice_visualization ::
  "env \<Rightarrow> config \<Rightarrow> Slice \<Rightarrow> EmailDeliveryType \<Rightarrow> ReportContent io" where
  "get_slice_visualization env cfg slc delivery_type =
     io_bind (create_webdriver env) (\<lambda>driver.
     io_bind (set_window_size env (WEBDRIVER_WINDOW_slice cfg)) (\<lambda>_.
     let slice_url = get_url_path env ''Superset.slice'' False (Slice_id slc);
         slice_url_user_friendly = get_url_path env ''Superset.slice'' True (Slice_id slc)
     in
     io_bind (driver_get env slice_url) (\<lambda>_.
     io_bind (sleep (EMAIL_PAGE_RENDER_WAIT cfg)) (\<lambda>_.
     io_bind (element_screenshot env cfg ''chart-container'') (\<lambda>screenshot.
     lift (generate_report_content env cfg delivery_type screenshot
             (Slice_name slc) slice_url_user_friendly))))))"

definition deliver_slice ::
  "env \<Rightarrow> config \<Rightarrow> int \<Rightarrow> string option \<Rightarrow> string option \<Rightarrow> EmailDeliveryType
     \<Rightarrow> SliceEmailReportFormat \<Rightarrow> bool \<Rightarrow> unit io" where
  "deliver_slice env cfg slice_id recipients slack_channel delivery_type email_format
       deliver_as_group =
     io_bind (one (find_slice env slice_id)) (\<lambda>slc.
     io_bind
       (case email_format of
          SliceEmailReportFormat_data \<Rightarrow> get_slice_data env cfg slc delivery_type
        | SliceEmailReportFormat_visualization \<Rightarrow>
            get_slice_visualization env cfg slc delivery_type
        | SliceEmailReportFormat_other \<Rightarrow> raise (RuntimeError ''Unknown email report format''))
       (\<lambda>report_content.
     let subject = EMAIL_REPORTS_SUBJECT_PREFIX cfg @ '' '' @ Slice_name slc in
     io_bind
       (when_truthy recipients (\<lambda>recipients.
          deliver_email env cfg recipients deliver_as_group subject
            (Content_body report_content) (Content_data report_content)
            (Content_images report_content)))
       (\<lambda>_.
     when_truthy slack_channel (\<lambda>slack_channel.
       deliver_slack env slack_channel subject
         (Content_slack_message report_content)
         (Content_slack_attachment report_content)))))"

subsection \<open>The delivery job\<close>

text \<open>
  \<^verbatim>\<open>db.create_scoped_session().query(model_cls).get(schedule_id)\<close>: the row, or
  \<^verbatim>\<open>None\<close> when the table has none with this id. A query on \<^verbatim>\<open>None\<close> in place
  of a table is refused by the database library with an exception.
\<close>

definition query_get :: "env \<Rightarrow> string option \<Rightarrow> int \<Rightarrow> Schedule option io" where
  "query_get env model_cls schedule_id =
     (case model_cls of
        None \<Rightarrow> raise SQLAlchemyError
      | Some table \<Rightarrow> return (find_schedule env table schedule_id))"

definition schedule_email_report ::
  "env \<Rightarrow> config \<Rightarrow> ScheduleType \<Rightarrow> int \<Rightarrow> string option \<Rightarrow> string option \<Rightarrow> unit io" where
  "schedule_email_report env cfg report_type schedule_id recipients slack_channel =
     (let model_cls = get_scheduler_model env report_type in
      io_bind (query_get env model_cls schedule_id) (\<lambda>schedule.
      case schedule of
        None \<Rightarrow> logger_info ''Ignoring deactivated schedule''
      | Some schedule \<Rightarrow>
          if \<not> Schedule_active schedule then logger_info ''Ignoring deactivated schedule''
          else
            let recipients = py_or recipients (Schedule_recipients schedule);
                slack_channel = py_or slack_channel (Schedule_slack_channel schedule)
            in
            io_bind
              (logger_info (''Starting report for slack: '' @ str_opt slack_channel @
                 '' and recipients: '' @ str_opt recipients @ ''.''))
              (\<lambda>_.
            case report_type of
              ScheduleType_dashboard \<Rightarrow>
                deliver_dashboard env cfg (Schedule_dashboard_id schedule) recipients
                  slack_channel (Schedule_delivery_type schedule)
                  (Schedule_deliver_as_group schedule)
            | ScheduleType_slice \<Rightarrow>
                deliver_slice env cfg (Schedule_slice_id schedule) recipients slack_channel
                  (Schedule_delivery_type schedule) (Schedule_email_format schedule)
                  (Schedule_deliver_as_group schedule)
            | ScheduleType_other \<Rightarrow> raise (RuntimeError ''Unknown report type''))))"

subsection \<open>A sample configuration and outside world\<close>

text \<open>
  A world in which every call succeeds, to run the model on; the failing worlds below
  change one answer of it.
\<close>

definition sample_config :: config where
  "sample_config =
     \<lparr>EMAIL_REPORT_BCC_ADDRESS = Some ''audit@example.org'',
      EMAIL_PAGE_RENDER_WAIT = 30,
      EMAIL_REPORTS_SUBJECT_PREFIX = ''[Report]'',
      SCHEDULED_EMAIL_DEBUG_MODE = False,
      SMTP_MAIL_FROM = ''superset@example.org'',
      WEBDRIVER_WINDOW_dashboard = (1600, 2000),
      WEBDRIVER_WINDOW_slice = (3000, 1200)\<rparr>"

definition sample_schedule :: Schedule where
  "sample_schedule =
     \<lparr>Schedule_active = True,
      Schedule_recipients = Some ''a@x.org,b@x.org'',
      Schedule_slack_channel = Some ''#reports'',
      Schedule_delivery_type = EmailDeliveryType_attachment,
      Schedule_deliver_as_group = False,
      Schedule_dashboard_id = 1,
      Schedule_slice_id = 1,
      Schedule_email_format = SliceEmailReportFormat_data\<rparr>"

text \<open>
  The two report types have a schedule table each, with the same rows: schedule 1 is
  active, schedule 2 exists and is not, and there is no other.
\<close>

definition sample_env :: env where
  "sample_env =
     \<lparr>get_email_address_list = py_split CHR '','',
      parseaddr = (\<lambda>s. ([], s)),
      make_msgid = (\<lambda>domain. ''<1.2.3@'' @ domain @ ''>''),
      get_url_path = (\<lambda>view user_friendly i.
         (if user_friendly then ''https://superset.example.org/''
          else ''http://0.0.0.0:8080/'') @ view),
      get_auth_cookies = [''c0ffee''],
      find_dashboard = (\<lambda>i. if i = 1
         then Some \<lparr>Dashboard_id = 1, Dashboard_title = ''Sales''\<rparr> else None),
      find_slice = (\<lambda>i. if i = 1
         then Some \<lparr>Slice_id = 1, Slice_name = ''Orders''\<rparr> else None),
      get_scheduler_model = (\<lambda>t. case t of
           ScheduleType_dashboard \<Rightarrow> Some ''dashboard_email_schedules''
         | ScheduleType_slice \<Rightarrow> Some ''slice_email_schedules''
         | ScheduleType_other \<Rightarrow> None),
      find_schedule = (\<lambda>t i.
         if i = 1 then Some sample_schedule
         else if i = 2 then Some (sample_schedule\<lparr>Schedule_active := False\<rparr>)
         else None),
      on_create_webdriver = (\<lambda>h. Inr ()),
      on_set_window_size = (\<lambda>h. Inr ()),
      on_driver_get = (\<lambda>h. Inr ()),
      on_find_element = (\<lambda>h. Inr ()),
      on_screenshot_as_png = (\<lambda>h. Inr ''PNG''),
      on_driver_screenshot = (\<lambda>h. Inr ''PAGE''),
      on_driver_close = (\<lambda>h. Inr ()),
      on_driver_quit = (\<lambda>h. Inr ()),
      on_url_open = (\<lambda>h. Inr (200, ''a,b'' @ nl @ ''1,2'' @ nl)),
      on_send_email_smtp = (\<lambda>h. Inr ()),
      on_files_upload = (\<lambda>h. Inr True)\<rparr>"


text \<open>Worlds in which one kind of call fails.\<close>

definition element_never_found :: env where
  "element_never_found = sample_env\<lparr>on_find_element := (\<lambda>h. Inl WebDriverException)\<rparr>"

definition always_SlackApiError :: env where
  "always_SlackApiError = sample_env\<lparr>on_files_upload := (\<lambda>h. Inl SlackApiError)\<rparr>"

definition upload_without_file :: env where
  "upload_without_file = sample_env\<lparr>on_files_upload := (\<lambda>h. Inr False)\<rparr>"

text \<open>The mail transport raises for one address and accepts every other.\<close>

definition smtp_rejects :: "string \<Rightarrow> env" where
  "smtp_rejects addr =
     sample_env\<lparr>on_send_email_smtp := (\<lambda>h.
       case rev h of
         Send_email_smtp to _ _ _ _ _ _ _ # _ \<Rightarrow>
           if to = addr then Inl SMTPException else Inr ()
       | _ \<Rightarrow> Inr ())\<rparr>"

subsection \<open>Reading a record of calls and a report content\<close>

text \<open>The addressees of the sends, the channels of the uploads and the pauses, in order.\<close>

fun sent_to :: "event list \<Rightarrow> string list" where
  "sent_to [] = []"
| "sent_to (Send_email_smtp to _ _ _ _ _ _ _ # es) = to # sent_to es"
| "sent_to (_ # es) = sent_to es"

fun uploaded_to :: "event list \<Rightarrow> string list" where
  "uploaded_to [] = []"
| "uploaded_to (Files_upload channels _ _ _ # es) = channels # uploaded_to es"
| "uploaded_to (_ # es) = uploaded_to es"

fun delays :: "event list \<Rightarrow> nat list" where
  "delays [] = []"
| "delays (Sleep n # es) = n # delays es"
| "delays (_ # es) = delays es"

text \<open>
  The sends that delivery to each address of a list in turn is made of: one per address,
  in order, each with the configured BCC address.
\<close>

definition individual_sends ::
  "config \<Rightarrow> string list \<Rightarrow> string \<Rightarrow> markup \<Rightarrow> attachments option \<Rightarrow> attachments option
     \<Rightarrow> event list" where
  "individual_sends cfg tos subject body data images =
     map (\<lambda>to. Send_email_smtp to subject body data images (EMAIL_REPORT_BCC_ADDRESS cfg)
                 ''related'' (SCHEDULED_EMAIL_DEBUG_MODE cfg)) tos"





text \<open>
  The value the job is to use for an optional argument, in the words of the claim: the
  override when it is a non-empty string, the stored value otherwise.
\<close>

definition resolved :: "string option \<Rightarrow> string option \<Rightarrow> string option" where
  "resolved override stored = (case override of Some (c # cs) \<Rightarrow> Some (c # cs) | _ \<Rightarrow> stored)"



section \<open>The cron window\<close>

subsection \<open>The sample evaluator keeps the library's promise\<close>

lemma period_next_gt:
  fixes t p :: int
  assumes p: "0 < p"
  shows "t < (t div p + 1) * p"
proof -
  have "t mod p < p" using p by simp
  moreover have "t = t div p * p + t mod p" by simp
  ultimately have "t < t div p * p + p" by linarith
  then show ?thesis by (simp add: distrib_right)
qed

lemma period_gap:
  fixes t u p :: int
  assumes p: "0 < p" and tu: "t < u" and up: "u < (t div p + 1) * p"
  shows "u mod p \<noteq> 0"
proof
  assume z: "u mod p = 0"
  then have u: "u = u div p * p" by auto
  have "t div p \<le> u div p" using tu p by (simp add: zdiv_mono1)
  moreover have "u div p < t div p + 1"
    using up u p by (metis mult_less_cancel_right_pos)
  ultimately have "u div p = t div p" by simp
  then have "u = t div p * p" using u by simp
  moreover have "t div p * p \<le> t" using p
    by (metis add_le_cancel_left div_mult_mod_eq pos_mod_sign add.right_neutral)
  ultimately show False using tu by simp
qed

lemma sample_croniter_evaluator: "cron_evaluator (sample_fires c) (sample_croniter c)"
proof -
  have p: "0 < cron_period c" by (simp add: cron_period_def)
  show ?thesis
    unfolding cron_evaluator_def sample_fires_def sample_croniter_def
  proof (intro allI conjI impI)
    fix t
    show "t < (t div cron_period c + 1) * cron_period c"
      by (rule period_next_gt[OF p])
    show "(t div cron_period c + 1) * cron_period c mod cron_period c = 0"
      by simp
    fix u
    assume "t < u \<and> u < (t div cron_period c + 1) * cron_period c"
    then have "t < u" and "u < (t div cron_period c + 1) * cron_period c"
      by simp_all
    then show "u mod cron_period c \<noteq> 0"
      by (rule period_gap[OF p])
  qed
qed

subsection \<open>Durations that can be built\<close>


lemma timedelta_seconds_value: "timedelta 0 n = Inr d \<Longrightarrow> d = n * 1000000"
  by (simp add: timedelta_def Let_def split: if_splits)

lemma timedelta_seconds_raises: "timedelta 0 n = Inl e \<Longrightarrow> e = OverflowError"
  by (simp add: timedelta_def Let_def split: if_splits)

lemma timedelta_second: "timedelta 0 1 = Inr 1000000"
  by (simp add: timedelta_def)

lemma timedelta_day: "timedelta 1 0 = Inr 86400000000"
  by (simp add: timedelta_def)

lemma next_schedules_unfold:
  "next_schedules croniter crontab start_at stop_at resolution =
     next_schedules_loop (croniter crontab) (start_at - 1000000) (start_at - 86400000000)
       start_at stop_at resolution"
  by (simp add: next_schedules_def timedelta_second timedelta_day)

subsection \<open>The loop of \<^verbatim>\<open>next_schedules\<close>\<close>

lemma evaluator_advances: "cron_evaluator fires g \<Longrightarrow> t < g t"
  by (simp add: cron_evaluator_def)

lemma evaluator_fires: "cron_evaluator fires g \<Longrightarrow> fires (g t)"
  by (simp add: cron_evaluator_def)

lemma evaluator_earliest: "cron_evaluator fires g \<Longrightarrow> t < u \<Longrightarrow> fires u \<Longrightarrow> g t \<le> u"
  unfolding cron_evaluator_def by (meson not_le)

text \<open>
  With an evaluator that always moves forward the loop ends, and what it yields lies in
  the window, increases, and keeps the spacing, counted from \<open>previous\<close>. It ends with
  an exception only when the spacing cannot be built.
\<close>

lemma loop_invariant:
  assumes adv: "\<And>t. t < g t"
  shows "\<exists>ys ending. next_schedules_loop g cur prev start stop res = Some (ys, ending)
     \<and> (\<forall>y\<in>set ys. cur < y \<and> start \<le> y \<and> y < stop)
     \<and> sorted_wrt (<) ys
     \<and> successively (\<lambda>a b. res * 1000000 \<le> b - a) (prev # ys)
     \<and> (ending \<noteq> None \<longrightarrow> ending = Some OverflowError \<and> timedelta 0 res = Inl OverflowError)"
proof (induction "nat (stop - cur)" arbitrary: cur prev rule: less_induct)
  case less
  let ?eta = "g cur"
  have lt: "cur < ?eta" by (rule adv)
  show ?case
  proof (cases "?eta \<ge> stop")
    case True
    then show ?thesis by (subst next_schedules_loop.simps) simp
  next
    case False
    then have m: "nat (stop - ?eta) < nat (stop - cur)" using lt by linarith
    show ?thesis
    proof (cases "?eta < start")
      case True
      from less[OF m, of prev] obtain ys ending where
        ys: "next_schedules_loop g ?eta prev start stop res = Some (ys, ending)"
          "\<forall>y\<in>set ys. ?eta < y \<and> start \<le> y \<and> y < stop" "sorted_wrt (<) ys"
          "successively (\<lambda>a b. res * 1000000 \<le> b - a) (prev # ys)"
          "ending \<noteq> None \<longrightarrow> ending = Some OverflowError \<and> timedelta 0 res = Inl OverflowError"
        by blast
      have "next_schedules_loop g cur prev start stop res = Some (ys, ending)"
        using False True ys(1) by (subst next_schedules_loop.simps) (simp add: Let_def)
      then show ?thesis using ys lt by fastforce
    next
      case inside: False
      show ?thesis
      proof (cases "timedelta 0 res")
        case (Inl e)
        then have e: "e = OverflowError" by (rule timedelta_seconds_raises)
        have "next_schedules_loop g cur prev start stop res = Some ([], Some OverflowError)"
          using False inside Inl e by (subst next_schedules_loop.simps) (simp add: Let_def)
        then show ?thesis using Inl e by simp
      next
        case (Inr d)
        then have d: "d = res * 1000000" by (rule timedelta_seconds_value)
        show ?thesis
        proof (cases "?eta - prev < d")
          case True
          from less[OF m, of prev] obtain ys ending where
            ys: "next_schedules_loop g ?eta prev start stop res = Some (ys, ending)"
              "\<forall>y\<in>set ys. ?eta < y \<and> start \<le> y \<and> y < stop" "sorted_wrt (<) ys"
              "successively (\<lambda>a b. res * 1000000 \<le> b - a) (prev # ys)"
              "ending \<noteq> None \<longrightarrow>
                 ending = Some OverflowError \<and> timedelta 0 res = Inl OverflowError"
            by blast
          have "next_schedules_loop g cur prev start stop res = Some (ys, ending)"
            using False inside Inr True ys(1)
            by (subst next_schedules_loop.simps) (simp add: Let_def)
          then show ?thesis using ys lt by fastforce
        next
          case far: False
          from less[OF m, of ?eta] obtain ys ending where
            ys: "next_schedules_loop g ?eta ?eta start stop res = Some (ys, ending)"
              "\<forall>y\<in>set ys. ?eta < y \<and> start \<le> y \<and> y < stop" "sorted_wrt (<) ys"
              "successively (\<lambda>a b. res * 1000000 \<le> b - a) (?eta # ys)"
              "ending \<noteq> None \<longrightarrow>
                 ending = Some OverflowError \<and> timedelta 0 res = Inl OverflowError"
            by blast
          have "next_schedules_loop g cur prev start stop res = Some (?eta # ys, ending)"
            using False inside Inr far ys(1)
            by (subst next_schedules_loop.simps) (simp add: Let_def)
          moreover have "successively (\<lambda>a b. res * 1000000 \<le> b - a) (prev # ?eta # ys)"
            using far d ys(4) by simp
          ultimately show ?thesis using ys lt False inside by fastforce
        qed
      qed
    qed
  qed
qed



text \<open>With resolution 0 the loop yields every instant of the window at which the expression fires.\<close>

lemma loop_no_debounce:
  assumes ev: "cron_evaluator fires g" and "prev \<le> cur"
  shows "\<exists>ys. next_schedules_loop g cur prev start stop 0 = Some (ys, None)
     \<and> set ys = {t. cur < t \<and> fires t \<and> start \<le> t \<and> t < stop}"
  using assms(2)
proof (induction "nat (stop - cur)" arbitrary: cur prev rule: less_induct)
  case less
  let ?e = "g cur"
  have lt: "cur < ?e" by (rule evaluator_advances[OF ev])
  have f: "fires ?e" by (rule evaluator_fires[OF ev])
  have z: "timedelta 0 0 = Inr 0" by (simp add: timedelta_def)
  have early: "\<And>u. cur < u \<Longrightarrow> fires u \<Longrightarrow> ?e \<le> u"
    using evaluator_earliest[OF ev] by blast
  show ?case
  proof (cases "?e \<ge> stop")
    case True
    have "next_schedules_loop g cur prev start stop 0 = Some ([], None)"
      using True by (subst next_schedules_loop.simps) simp
    moreover have "{t. cur < t \<and> fires t \<and> start \<le> t \<and> t < stop} = {}"
      using True early by fastforce
    ultimately show ?thesis by simp
  next
    case False
    then have m: "nat (stop - ?e) < nat (stop - cur)" using lt by linarith
    have nd: "\<not> ?e - prev < 0"
      using less.prems lt by simp
    show ?thesis
    proof (cases "?e < start")
      case True
      have "prev \<le> ?e" using less.prems lt by simp
      from less.hyps[OF m this] obtain ys where
        ys: "next_schedules_loop g ?e prev start stop 0 = Some (ys, None)"
          "set ys = {t. ?e < t \<and> fires t \<and> start \<le> t \<and> t < stop}" by blast
      have "next_schedules_loop g cur prev start stop 0 = Some (ys, None)"
        using False True ys(1) by (subst next_schedules_loop.simps) (simp add: Let_def)
      moreover have "{t. ?e < t \<and> fires t \<and> start \<le> t \<and> t < stop}
          = {t. cur < t \<and> fires t \<and> start \<le> t \<and> t < stop}"
        using True lt early by force
      ultimately show ?thesis using ys(2) by simp
    next
      case no: False
      from less.hyps[OF m, of ?e] obtain ys where
        ys: "next_schedules_loop g ?e ?e start stop 0 = Some (ys, None)"
          "set ys = {t. ?e < t \<and> fires t \<and> start \<le> t \<and> t < stop}" by blast
      have "next_schedules_loop g cur prev start stop 0 = Some (?e # ys, None)"
        using False no nd z ys(1) by (subst next_schedules_loop.simps) (simp add: Let_def)
      moreover have "insert ?e {t. ?e < t \<and> fires t \<and> start \<le> t \<and> t < stop}
          = {t. cur < t \<and> fires t \<and> start \<le> t \<and> t < stop}"
        using no False lt f early by force
      ultimately show ?thesis using ys(2) by simp
    qed
  qed
qed

subsection \<open>Window bounds\<close>




subsection \<open>Spacing and order\<close>

text \<open>
  Claim C2. For every cron expression whose evaluator keeps the library's promise,
  \<open>next_schedules\<close> ends; every two instants yielded one after the other are at
  least \<open>resolution\<close> seconds apart; the instants yielded increase strictly; and with
  \<open>resolution = 0\<close> nothing is held back: the instants yielded are all the instants of
  the window at which the expression fires, and the generator is exhausted. It raises
  only when \<^verbatim>\<open>timedelta(seconds=resolution)\<close> does.
\<close>

theorem next_schedules_debounce:
  assumes ev: "cron_evaluator fires (croniter crontab)"
  shows "\<exists>ys ending. next_schedules croniter crontab start_at stop_at resolution = Some (ys, ending)
     \<and> successively (\<lambda>a b. resolution * 1000000 \<le> b - a) ys
     \<and> sorted_wrt (<) ys
     \<and> (resolution = 0 \<longrightarrow>
          set ys = {t. fires t \<and> start_at \<le> t \<and> t < stop_at} \<and> ending = None)
     \<and> (ending \<noteq> None \<longrightarrow> timedelta 0 resolution = Inl OverflowError)"
proof -
  let ?g = "croniter crontab"
  let ?seed = "start_at - 1000000"
  let ?prev = "start_at - 86400000000"
  obtain ys ending where
    ys: "next_schedules_loop ?g ?seed ?prev start_at stop_at resolution = Some (ys, ending)"
    and srt: "sorted_wrt (<) ys"
    and suc: "successively (\<lambda>a b. resolution * 1000000 \<le> b - a) (?prev # ys)"
    and en: "ending \<noteq> None \<longrightarrow> timedelta 0 resolution = Inl OverflowError"
    using loop_invariant[of ?g, OF evaluator_advances[OF ev]] by blast
  have sp: "successively (\<lambda>a b. resolution * 1000000 \<le> b - a) ys"
    using suc by (cases ys) simp_all
  have "set ys = {t. fires t \<and> start_at \<le> t \<and> t < stop_at} \<and> ending = None"
    if "resolution = 0"
  proof -
    have "?prev \<le> ?seed" by simp
    from loop_no_debounce[OF ev this, of start_at stop_at] ys that
    have "set ys = {t. ?seed < t \<and> fires t \<and> start_at \<le> t \<and> t < stop_at}"
      and "ending = None" by auto
    moreover have "{t. ?seed < t \<and> fires t \<and> start_at \<le> t \<and> t < stop_at}
        = {t. fires t \<and> start_at \<le> t \<and> t < stop_at}"
      by auto
    ultimately show ?thesis by simp
  qed
  then show ?thesis using ys srt sp en unfolding next_schedules_unfold by blast
qed

text \<open>The hourly expression with a resolution of two hours: 01:00 is held back.\<close>

theorem next_schedules_debounce_witness:
  "(\<exists>ys ending.
      next_schedules sample_croniter ''0 * * * *'' 0 10800000000 7200 = Some (ys, ending) \<and>
      successively (\<lambda>a b. 7200 * 1000000 \<le> b - a) ys \<and> sorted_wrt (<) ys) \<and>
   next_schedules sample_croniter ''0 * * * *'' 0 10800000000 7200
     = Some ([0, 7200000000], None)"
proof -
  have v: "next_schedules sample_croniter ''0 * * * *'' 0 10800000000 7200
     = Some ([0, 7200000000], None)"
    by code_simp
  from next_schedules_debounce[where croniter = sample_croniter and crontab = "''0 * * * *''"
      and fires = "sample_fires ''0 * * * *''" and start_at = 0 and stop_at = 10800000000
      and resolution = 7200, OF sample_croniter_evaluator]
  have "\<exists>ys ending.
      next_schedules sample_croniter ''0 * * * *'' 0 10800000000 7200 = Some (ys, ending) \<and>
      successively (\<lambda>a b. 7200 * 1000000 \<le> b - a) ys \<and> sorted_wrt (<) ys"
    by blast
  with v show ?thesis by simp
qed

subsection \<open>The first instant of the window\<close>





section \<open>Effects\<close>

lemma io_bind_call:
  "io_bind (call ev out) f h =
     (case out (h @ [ev]) of Inl e \<Rightarrow> (Inl e, h @ [ev]) | Inr x \<Rightarrow> f x (h @ [ev]))"
  by (simp add: io_bind_def call_def split: sum.splits)

text \<open>
  A loop whose body is one outside call makes the calls of a prefix of the list. When it
  returns, the prefix is the whole list; when it raises, the last call made is the one
  that raised.
\<close>

lemma for_each_calls:
  "for_each xs (\<lambda>x. call (ev x) out) h = (r, h') \<Longrightarrow>
   \<exists>k\<le>length xs. h' = h @ map ev (take k xs) \<and>
     (case r of Inr _ \<Rightarrow> k = length xs | Inl e \<Rightarrow> 0 < k \<and> out h' = Inl e)"
proof (induction xs arbitrary: h)
  case Nil
  then show ?case by (auto simp: return_def)
next
  case (Cons x xs)
  show ?case
  proof (cases "out (h @ [ev x])")
    case (Inl e)
    then have "r = Inl e" "h' = h @ [ev x]"
      using Cons.prems by (simp_all add: io_bind_call)
    then show ?thesis using Inl by (intro exI[of _ 1]) simp
  next
    case (Inr u)
    then have "for_each xs (\<lambda>x. call (ev x) out) (h @ [ev x]) = (r, h')"
      using Cons.prems by (simp add: io_bind_call)
    from Cons.IH[OF this] obtain k where k: "k \<le> length xs"
      "h' = (h @ [ev x]) @ map ev (take k xs)"
      "case r of Inr _ \<Rightarrow> k = length xs | Inl e \<Rightarrow> 0 < k \<and> out h' = Inl e" by blast
    show ?thesis
      using k by (intro exI[of _ "Suc k"]) (auto split: sum.splits)
  qed
qed

lemma for_each_map: "for_each (map f xs) body = for_each xs (\<lambda>x. body (f x))"
  by (induction xs) simp_all

section \<open>Email delivery\<close>

lemma deliver_email_individually:
  "deliver_email env cfg recipients False subject body data images =
     for_each (get_email_address_list env recipients)
       (\<lambda>to. call (Send_email_smtp to subject body data images (EMAIL_REPORT_BCC_ADDRESS cfg)
                     ''related'' (SCHEDULED_EMAIL_DEBUG_MODE cfg)) (on_send_email_smtp env))"
  by (simp add: deliver_email_def get_email_to_and_bcc_def for_each_map send_email_smtp_def)

text \<open>
  A loop whose body is one outside call, run forward: when the first \<open>i\<close> calls return
  and the next one raises, the loop makes these \<open>i + 1\<close> calls and no other and raises
  that exception; when every call returns, it makes them all and returns.
\<close>

lemma for_each_raises:
  "i < length xs \<Longrightarrow>
   (\<forall>j<i. out (h @ map ev (take (Suc j) xs)) = Inr ()) \<Longrightarrow>
   out (h @ map ev (take (Suc i) xs)) = Inl e \<Longrightarrow>
   for_each xs (\<lambda>x. call (ev x) out) h = (Inl e, h @ map ev (take (Suc i) xs))"
proof (induction xs arbitrary: h i)
  case Nil
  then show ?case by simp
next
  case (Cons x xs)
  show ?case
  proof (cases i)
    case 0
    then show ?thesis using Cons.prems(3) by (simp add: io_bind_call)
  next
    case (Suc k)
    have first: "out (h @ [ev x]) = Inr ()"
      using Cons.prems(2) Suc by (auto dest: spec[of _ 0])
    have k: "k < length xs" using Cons.prems(1) Suc by simp
    have before: "\<forall>j<k. out ((h @ [ev x]) @ map ev (take (Suc j) xs)) = Inr ()"
    proof (intro allI impI)
      fix j assume "j < k"
      then have "Suc j < i" using Suc by simp
      then show "out ((h @ [ev x]) @ map ev (take (Suc j) xs)) = Inr ()"
        using Cons.prems(2) by (auto dest: spec[of _ "Suc j"])
    qed
    have last: "out ((h @ [ev x]) @ map ev (take (Suc k) xs)) = Inl e"
      using Cons.prems(3) Suc by simp
    show ?thesis
      using Cons.IH[OF k before last] first Suc by (simp add: io_bind_call)
  qed
qed

lemma for_each_returns:
  "(\<forall>j<length xs. out (h @ map ev (take (Suc j) xs)) = Inr ()) \<Longrightarrow>
   for_each xs (\<lambda>x. call (ev x) out) h = (Inr (), h @ map ev xs)"
proof (induction xs arbitrary: h)
  case Nil
  then show ?case by (simp add: return_def)
next
  case (Cons x xs)
  have first: "out (h @ [ev x]) = Inr ()"
    using Cons.prems by (auto dest: spec[of _ 0])
  have "\<forall>j<length xs. out ((h @ [ev x]) @ map ev (take (Suc j) xs)) = Inr ()"
  proof (intro allI impI)
    fix j assume "j < length xs"
    then have "Suc j < length (x # xs)" by simp
    then show "out ((h @ [ev x]) @ map ev (take (Suc j) xs)) = Inr ()"
      using Cons.prems by (auto dest: spec[of _ "Suc j"])
  qed
  from Cons.IH[OF this] first show ?case by (simp add: io_bind_call)
qed

text \<open>
  Claim C5, as amended. In \<open>deliver_email\<close> with \<open>deliver_as_group\<close> false and \<open>n\<close>
  parsed addresses, the sends are attempted in order up to the first one that raises.
  When the sends to the first \<open>i\<close> addresses return and the send to the next address
  raises, exactly these \<open>i + 1\<close> sends are made (the sends to the addresses after it
  are not attempted) and the exception is raised to the caller, not dropped. When no
  send raises, all \<open>n\<close> are made and the function returns.
\<close>

theorem deliver_email_stops_at_failure:
  "(i < length (get_email_address_list env recipients) \<and>
    (\<forall>j<i. on_send_email_smtp env
              (h @ take (Suc j) (individual_sends cfg (get_email_address_list env recipients)
                                   subject body data images)) = Inr ()) \<and>
    on_send_email_smtp env
      (h @ take (Suc i) (individual_sends cfg (get_email_address_list env recipients)
                           subject body data images)) = Inl e \<longrightarrow>
    deliver_email env cfg recipients False subject body data images h
      = (Inl e,
         h @ take (Suc i) (individual_sends cfg (get_email_address_list env recipients)
                             subject body data images))) \<and>
   ((\<forall>j<length (get_email_address_list env recipients).
       on_send_email_smtp env
         (h @ take (Suc j) (individual_sends cfg (get_email_address_list env recipients)
                              subject body data images)) = Inr ()) \<longrightarrow>
    deliver_email env cfg recipients False subject body data images h
      = (Inr (),
         h @ individual_sends cfg (get_email_address_list env recipients)
               subject body data images))"
  unfolding deliver_email_individually individual_sends_def take_map
  by (intro conjI impI; (elim conjE)?) (rule for_each_raises for_each_returns; assumption)+

text \<open>
  Three addresses, the transport raising for the second: two sends, the third never
  made, the exception with the caller. And a transport that accepts all three.
\<close>

theorem deliver_email_stops_at_failure_witness:
  "deliver_email (smtp_rejects ''b@x.org'') sample_config ''a@x.org,b@x.org,c@x.org'' False
       ''[Report] Sales'' (Text ''see'') None None []
     = (Inl SMTPException,
        [Send_email_smtp ''a@x.org'' ''[Report] Sales'' (Text ''see'') None None
           (Some ''audit@example.org'') ''related'' False,
         Send_email_smtp ''b@x.org'' ''[Report] Sales'' (Text ''see'') None None
           (Some ''audit@example.org'') ''related'' False]) \<and>
   deliver_email sample_env sample_config ''a@x.org,b@x.org,c@x.org'' False
       ''[Report] Sales'' (Text ''see'') None None []
     = (Inr (),
        [Send_email_smtp ''a@x.org'' ''[Report] Sales'' (Text ''see'') None None
           (Some ''audit@example.org'') ''related'' False,
         Send_email_smtp ''b@x.org'' ''[Report] Sales'' (Text ''see'') None None
           (Some ''audit@example.org'') ''related'' False,
         Send_email_smtp ''c@x.org'' ''[Report] Sales'' (Text ''see'') None None
           (Some ''audit@example.org'') ''related'' False])"
proof -
  let ?sends = "[Send_email_smtp ''a@x.org'' ''[Report] Sales'' (Text ''see'') None None
           (Some ''audit@example.org'') ''related'' False,
         Send_email_smtp ''b@x.org'' ''[Report] Sales'' (Text ''see'') None None
           (Some ''audit@example.org'') ''related'' False,
         Send_email_smtp ''c@x.org'' ''[Report] Sales'' (Text ''see'') None None
           (Some ''audit@example.org'') ''related'' False]"
  have tos: "get_email_address_list (smtp_rejects ''b@x.org'') ''a@x.org,b@x.org,c@x.org''
       = [''a@x.org'', ''b@x.org'', ''c@x.org'']"
    "get_email_address_list sample_env ''a@x.org,b@x.org,c@x.org''
       = [''a@x.org'', ''b@x.org'', ''c@x.org'']"
    by code_simp+
  have sends: "individual_sends sample_config [''a@x.org'', ''b@x.org'', ''c@x.org'']
       ''[Report] Sales'' (Text ''see'') None None = ?sends"
    by code_simp
  have a: "on_send_email_smtp (smtp_rejects ''b@x.org'') ([] @ take (Suc 0) ?sends) = Inr ()"
    by code_simp
  have b: "on_send_email_smtp (smtp_rejects ''b@x.org'') ([] @ take (Suc 1) ?sends)
       = Inl SMTPException"
    by code_simp
  have c: "\<forall>j<3. on_send_email_smtp sample_env ([] @ take (Suc j) ?sends) = Inr ()"
    by (simp add: sample_env_def)
  have 1: "deliver_email (smtp_rejects ''b@x.org'') sample_config ''a@x.org,b@x.org,c@x.org''
       False ''[Report] Sales'' (Text ''see'') None None []
     = (Inl SMTPException, [] @ take (Suc 1) ?sends)"
    using deliver_email_stops_at_failure[THEN conjunct1, of 1 "smtp_rejects ''b@x.org''"
        "''a@x.org,b@x.org,c@x.org''" "[]" sample_config "''[Report] Sales''" "Text ''see''"
        None None SMTPException] a b
    by (simp add: tos sends less_Suc_eq)
  have 2: "deliver_email sample_env sample_config ''a@x.org,b@x.org,c@x.org''
       False ''[Report] Sales'' (Text ''see'') None None []
     = (Inr (), [] @ ?sends)"
    using deliver_email_stops_at_failure[THEN conjunct2, of sample_env
        "''a@x.org,b@x.org,c@x.org''" "[]" sample_config "''[Report] Sales''" "Text ''see''"
        None None] c
    by (simp add: tos sends)
  from 1 2 show ?thesis by simp
qed

text \<open>
  The claim as first stated has every send attempted whatever the others do. With two
  addresses and a transport that raises for the first, one send is made and the second
  address is never tried.
\<close>

theorem deliver_email_independent_counterexample:
  "get_email_address_list (smtp_rejects ''a@x.org'') ''a@x.org,b@x.org''
     = [''a@x.org'', ''b@x.org''] \<and>
   fst (deliver_email (smtp_rejects ''a@x.org'') sample_config ''a@x.org,b@x.org'' False
          ''[Report] Sales'' (Text ''see'') None None []) = Inl SMTPException \<and>
   sent_to (snd (deliver_email (smtp_rejects ''a@x.org'') sample_config ''a@x.org,b@x.org''
                   False ''[Report] Sales'' (Text ''see'') None None []))
     = [''a@x.org'']"
  by code_simp

text \<open>
  Claim C9, as amended. In \<open>deliver_email\<close>: when \<open>deliver_as_group\<close> is true, exactly
  one send is made, to the whole recipient string as given; when it is false, the
  recipient string parses to \<open>n\<close> addresses and the function returns (no send raises),
  exactly \<open>n\<close> sends are made, one per parsed address in order; in both cases every send
  carries the configured BCC address.
\<close>

theorem deliver_email_fan_out:
  "deliver_email env cfg recipients True subject body data images h
     = (on_send_email_smtp env
          (h @ [Send_email_smtp recipients subject body data images
                  (EMAIL_REPORT_BCC_ADDRESS cfg) ''related'' (SCHEDULED_EMAIL_DEBUG_MODE cfg)]),
        h @ [Send_email_smtp recipients subject body data images
               (EMAIL_REPORT_BCC_ADDRESS cfg) ''related'' (SCHEDULED_EMAIL_DEBUG_MODE cfg)]) \<and>
   (deliver_email env cfg recipients False subject body data images h = (Inr (), h') \<longrightarrow>
      h' = h @ individual_sends cfg (get_email_address_list env recipients)
                 subject body data images)"
proof (intro conjI impI)
  show "deliver_email env cfg recipients True subject body data images h
     = (on_send_email_smtp env
          (h @ [Send_email_smtp recipients subject body data images
                  (EMAIL_REPORT_BCC_ADDRESS cfg) ''related'' (SCHEDULED_EMAIL_DEBUG_MODE cfg)]),
        h @ [Send_email_smtp recipients subject body data images
               (EMAIL_REPORT_BCC_ADDRESS cfg) ''related'' (SCHEDULED_EMAIL_DEBUG_MODE cfg)])"
    by (simp add: deliver_email_def get_email_to_and_bcc_def send_email_smtp_def io_bind_call
        return_def split: sum.splits)
next
  assume "deliver_email env cfg recipients False subject body data images h = (Inr (), h')"
  from for_each_calls[OF this[unfolded deliver_email_individually]]
  show "h' = h @ individual_sends cfg (get_email_address_list env recipients)
                 subject body data images"
    by (simp add: individual_sends_def)
qed

text \<open>Two addresses and a transport that accepts both: one send as a group, two singly.\<close>

theorem deliver_email_fan_out_witness:
  "deliver_email sample_env sample_config ''a@x.org,b@x.org'' False
       ''[Report] Sales'' (Text ''see'') None None []
     = (Inr (),
        [Send_email_smtp ''a@x.org'' ''[Report] Sales'' (Text ''see'') None None
           (Some ''audit@example.org'') ''related'' False,
         Send_email_smtp ''b@x.org'' ''[Report] Sales'' (Text ''see'') None None
           (Some ''audit@example.org'') ''related'' False]) \<and>
   deliver_email sample_env sample_config ''a@x.org,b@x.org'' True
       ''[Report] Sales'' (Text ''see'') None None []
     = (Inr (),
        [Send_email_smtp ''a@x.org,b@x.org'' ''[Report] Sales'' (Text ''see'') None None
           (Some ''audit@example.org'') ''related'' False])"
proof -
  have run: "deliver_email sample_env sample_config ''a@x.org,b@x.org'' False
       ''[Report] Sales'' (Text ''see'') None None []
     = (Inr (), individual_sends sample_config [''a@x.org'', ''b@x.org'']
                  ''[Report] Sales'' (Text ''see'') None None)"
    by code_simp
  have tos: "get_email_address_list sample_env ''a@x.org,b@x.org'' = [''a@x.org'', ''b@x.org'']"
    by code_simp
  have "individual_sends sample_config [''a@x.org'', ''b@x.org'']
                  ''[Report] Sales'' (Text ''see'') None None
     = [] @ individual_sends sample_config
              (get_email_address_list sample_env ''a@x.org,b@x.org'')
              ''[Report] Sales'' (Text ''see'') None None"
    using deliver_email_fan_out[THEN conjunct2, rule_format, OF run] .
  then have single: "deliver_email sample_env sample_config ''a@x.org,b@x.org'' False
       ''[Report] Sales'' (Text ''see'') None None []
     = (Inr (),
        [Send_email_smtp ''a@x.org'' ''[Report] Sales'' (Text ''see'') None None
           (Some ''audit@example.org'') ''related'' False,
         Send_email_smtp ''b@x.org'' ''[Report] Sales'' (Text ''see'') None None
           (Some ''audit@example.org'') ''related'' False])"
    using run by (simp add: tos individual_sends_def sample_config_def)
  have group: "deliver_email sample_env sample_config ''a@x.org,b@x.org'' True
       ''[Report] Sales'' (Text ''see'') None None []
     = (Inr (),
        [Send_email_smtp ''a@x.org,b@x.org'' ''[Report] Sales'' (Text ''see'') None None
           (Some ''audit@example.org'') ''related'' False])"
    using deliver_email_fan_out[THEN conjunct1, of sample_env sample_config
        "''a@x.org,b@x.org''" "''[Report] Sales''" "Text ''see''" None None "[]"]
    by (simp add: sample_env_def sample_config_def)
  from single group show ?thesis by simp
qed

text \<open>
  The claim as first stated has exactly \<open>n\<close> sends for \<open>n\<close> parsed addresses. With
  three addresses and a transport that raises for the second, two sends are made.
\<close>

theorem deliver_email_count_counterexample:
  "length (get_email_address_list (smtp_rejects ''b@x.org'') ''a@x.org,b@x.org,c@x.org'') = 3 \<and>
   sent_to (snd (deliver_email (smtp_rejects ''b@x.org'') sample_config
                   ''a@x.org,b@x.org,c@x.org'' False ''[Report] Sales'' (Text ''see'')
                   None None []))
     = [''a@x.org'', ''b@x.org'']"
  by code_simp


section \<open>Chat delivery\<close>

lemma deliver_slack_body_raises:
  "on_files_upload env (h @ [Files_upload slack_channel file body subject]) = Inl e \<Longrightarrow>
   deliver_slack_body env slack_channel subject body file h
     = (Inl e, h @ [Files_upload slack_channel file body subject])"
  by (simp add: deliver_slack_body_def io_bind_call)

lemma deliver_slack_body_returns:
  "on_files_upload env (h @ [Files_upload slack_channel file body subject]) = Inr ok \<Longrightarrow>
   deliver_slack_body env slack_channel subject body file h
     = ((if ok then Inr () else Inl AssertionError),
        h @ [Files_upload slack_channel file body subject,
             Log_info (''Sent the report to the slack '' @ slack_channel)])"
  by (simp add: deliver_slack_body_def io_bind_call logger_info_def return_def raise_def)

lemma five_tries: "(5::nat) = Suc (Suc (Suc (Suc (Suc 0))))"
  by simp

text \<open>
  Claim C6, as amended. If the upload in \<open>deliver_slack\<close> raises \<open>SlackApiError\<close> on
  every attempt, exactly 5 attempts are made, with the pauses 10, 20, 40 and 80 between
  them (four pauses: none follows the fifth attempt), and the error is raised to the
  caller. If an upload returns a response without the uploaded file, an
  \<open>AssertionError\<close> is raised after the log line and nothing is retried: on the first
  attempt of \<open>deliver_slack\<close>, and on any later one (the retry loop with any number
  of tries left and any pause).
\<close>

theorem deliver_slack_retries:
  "((\<forall>h. on_files_upload env h = Inl SlackApiError) \<longrightarrow>
      deliver_slack env slack_channel subject body file h
        = (Inl SlackApiError,
           h @ [Files_upload slack_channel file body subject, Sleep 10,
                Files_upload slack_channel file body subject, Sleep 20,
                Files_upload slack_channel file body subject, Sleep 40,
                Files_upload slack_channel file body subject, Sleep 80,
                Files_upload slack_channel file body subject])) \<and>
   (on_files_upload env (h @ [Files_upload slack_channel file body subject]) = Inr False \<longrightarrow>
      deliver_slack env slack_channel subject body file h
        = (Inl AssertionError,
           h @ [Files_upload slack_channel file body subject,
                Log_info (''Sent the report to the slack '' @ slack_channel)]) \<and>
      retry_internal (deliver_slack_body env slack_channel subject body file)
          (\<lambda>e. e = SlackApiError) (Suc tries) delay 2 h
        = (Inl AssertionError,
           h @ [Files_upload slack_channel file body subject,
                Log_info (''Sent the report to the slack '' @ slack_channel)]))"
proof (intro conjI impI)
  assume a: "\<forall>h. on_files_upload env h = Inl SlackApiError"
  have b: "\<And>h. deliver_slack_body env slack_channel subject body file h
     = (Inl SlackApiError, h @ [Files_upload slack_channel file body subject])"
    using a by (simp add: deliver_slack_body_raises)
  show "deliver_slack env slack_channel subject body file h
        = (Inl SlackApiError,
           h @ [Files_upload slack_channel file body subject, Sleep 10,
                Files_upload slack_channel file body subject, Sleep 20,
                Files_upload slack_channel file body subject, Sleep 40,
                Files_upload slack_channel file body subject, Sleep 80,
                Files_upload slack_channel file body subject])"
    unfolding deliver_slack_def five_tries
    by (simp add: b io_bind_def sleep_def call_def)
next
  assume "on_files_upload env (h @ [Files_upload slack_channel file body subject]) = Inr False"
  then have "deliver_slack_body env slack_channel subject body file h
     = (Inl AssertionError,
        h @ [Files_upload slack_channel file body subject,
             Log_info (''Sent the report to the slack '' @ slack_channel)])"
    using deliver_slack_body_returns[of env h slack_channel "file" body subject False] by simp
  then show "deliver_slack env slack_channel subject body file h
        = (Inl AssertionError,
           h @ [Files_upload slack_channel file body subject,
                Log_info (''Sent the report to the slack '' @ slack_channel)])"
    and "retry_internal (deliver_slack_body env slack_channel subject body file)
          (\<lambda>e. e = SlackApiError) (Suc tries) delay 2 h
        = (Inl AssertionError,
           h @ [Files_upload slack_channel file body subject,
                Log_info (''Sent the report to the slack '' @ slack_channel)])"
    unfolding deliver_slack_def five_tries
    by (simp_all add: io_bind_def)
qed

text \<open>A chat client that always raises the transient error, and one whose response has no file.\<close>

theorem deliver_slack_retries_witness:
  "deliver_slack always_SlackApiError ''#reports'' ''[Report] Sales'' ''text'' ''PNG'' []
     = (Inl SlackApiError,
        [Files_upload ''#reports'' ''PNG'' ''text'' ''[Report] Sales'', Sleep 10,
         Files_upload ''#reports'' ''PNG'' ''text'' ''[Report] Sales'', Sleep 20,
         Files_upload ''#reports'' ''PNG'' ''text'' ''[Report] Sales'', Sleep 40,
         Files_upload ''#reports'' ''PNG'' ''text'' ''[Report] Sales'', Sleep 80,
         Files_upload ''#reports'' ''PNG'' ''text'' ''[Report] Sales'']) \<and>
   deliver_slack upload_without_file ''#reports'' ''[Report] Sales'' ''text'' ''PNG'' []
     = (Inl AssertionError,
        [Files_upload ''#reports'' ''PNG'' ''text'' ''[Report] Sales'',
         Log_info ''Sent the report to the slack #reports''])"
proof -
  have a: "\<forall>h. on_files_upload always_SlackApiError h = Inl SlackApiError"
    by (simp add: always_SlackApiError_def)
  have b: "on_files_upload upload_without_file
      ([] @ [Files_upload ''#reports'' ''PNG'' ''text'' ''[Report] Sales'']) = Inr False"
    by (simp add: upload_without_file_def)
  show ?thesis
    using a b
      deliver_slack_retries[of always_SlackApiError "''#reports''" "''[Report] Sales''"
        "''text''" "''PNG''" "[]" 0 0]
      deliver_slack_retries[of upload_without_file "''#reports''" "''[Report] Sales''"
        "''text''" "''PNG''" "[]" 0 0]
    by simp
qed

text \<open>
  The claim as first stated lists five pauses, the last of 160. With a chat client that
  always raises the transient error the pauses are 10, 20, 40 and 80: the fifth failure
  is raised at once.
\<close>

theorem deliver_slack_delays_counterexample:
  "delays (snd (deliver_slack always_SlackApiError ''#reports'' ''[Report] Sales'' ''text''
                  ''PNG'' []))
     = [10, 20, 40, 80]"
  by code_simp

section \<open>The browser is not destroyed when the element is not found\<close>

text \<open>
  \<open>destroy_webdriver\<close> hands no \<^verbatim>\<open>Exception\<close> to its caller, and when it returns it
  has called \<^verbatim>\<open>quit\<close>.
\<close>

lemma destroy_webdriver_swallows:
  "fst (destroy_webdriver env h) = Inl e \<Longrightarrow> \<not> is_Exception e"
  unfolding destroy_webdriver_def retry_call_def driver_close_def driver_quit_def
  by (auto simp: numeral_2_eq_2 io_bind_def try_except_def call_def return_def sleep_def
      split: sum.splits prod.splits if_splits)

lemma destroy_webdriver_quits:
  "fst (destroy_webdriver env h) = Inr () \<Longrightarrow>
   Driver_quit \<in> set (snd (destroy_webdriver env h))"
  unfolding destroy_webdriver_def retry_call_def driver_close_def driver_quit_def
  by (auto simp: numeral_2_eq_2 io_bind_def try_except_def call_def return_def sleep_def
      split: sum.splits prod.splits if_splits)

text \<open>When every call succeeds the dashboard path closes and quits the browser.\<close>

lemma deliver_dashboard_destroys:
  "snd (deliver_dashboard sample_env sample_config 1 None None EmailDeliveryType_attachment
          False [])
     = [Create_webdriver, Set_window_size 1600 2000,
        Driver_get ''http://0.0.0.0:8080/Superset.dashboard'', Sleep 30,
        Find_element_by_class_name ''grid-container'', Screenshot_as_png,
        Driver_close, Driver_quit]"
  by code_simp

text \<open>
  Claim C4 at its failing input. The browser starts, and the lookup of the element
  (\<^verbatim>\<open>grid-container\<close> for a dashboard, \<^verbatim>\<open>chart-container\<close> for a slice) raises on both
  attempts. The exception leaves \<open>deliver_dashboard\<close> and \<open>deliver_slice\<close> from
  \<^verbatim>\<open>retry_call\<close>, which stands before the \<^verbatim>\<open>try\<close> statement: the calls made end
  with the second lookup, and neither \<^verbatim>\<open>close\<close> nor \<^verbatim>\<open>quit\<close> is among them.
\<close>

theorem deliver_dashboard_element_not_found:
  "deliver_dashboard element_never_found sample_config 1 (Some ''a@x.org'') None
       EmailDeliveryType_attachment False []
     = (Inl WebDriverException,
        [Create_webdriver, Set_window_size 1600 2000,
         Driver_get ''http://0.0.0.0:8080/Superset.dashboard'', Sleep 30,
         Find_element_by_class_name ''grid-container'', Sleep 30,
         Find_element_by_class_name ''grid-container'']) \<and>
   deliver_slice element_never_found sample_config 1 (Some ''a@x.org'') None
       EmailDeliveryType_attachment SliceEmailReportFormat_visualization False []
     = (Inl WebDriverException,
        [Create_webdriver, Set_window_size 3000 1200,
         Driver_get ''http://0.0.0.0:8080/Superset.slice'', Sleep 30,
         Find_element_by_class_name ''chart-container'', Sleep 30,
         Find_element_by_class_name ''chart-container''])"
  by code_simp

section \<open>Report content\<close>










section \<open>The delivery job\<close>

lemma schedule_email_report_found:
  "get_scheduler_model env report_type = Some table \<Longrightarrow>
   schedule_email_report env cfg report_type schedule_id recipients slack_channel h =
     (case find_schedule env table schedule_id of
        None \<Rightarrow> logger_info ''Ignoring deactivated schedule'' h
      | Some schedule \<Rightarrow>
          if \<not> Schedule_active schedule then logger_info ''Ignoring deactivated schedule'' h
          else
            io_bind
              (logger_info (''Starting report for slack: '' @
                 str_opt (py_or slack_channel (Schedule_slack_channel schedule)) @
                 '' and recipients: '' @
                 str_opt (py_or recipients (Schedule_recipients schedule)) @ ''.''))
              (\<lambda>_.
            case report_type of
              ScheduleType_dashboard \<Rightarrow>
                deliver_dashboard env cfg (Schedule_dashboard_id schedule)
                  (py_or recipients (Schedule_recipients schedule))
                  (py_or slack_channel (Schedule_slack_channel schedule))
                  (Schedule_delivery_type schedule) (Schedule_deliver_as_group schedule)
            | ScheduleType_slice \<Rightarrow>
                deliver_slice env cfg (Schedule_slice_id schedule)
                  (py_or recipients (Schedule_recipients schedule))
                  (py_or slack_channel (Schedule_slack_channel schedule))
                  (Schedule_delivery_type schedule) (Schedule_email_format schedule)
                  (Schedule_deliver_as_group schedule)
            | ScheduleType_other \<Rightarrow> raise (RuntimeError ''Unknown report type'')) h)"
  by (simp add: schedule_email_report_def query_get_def io_bind_def return_def Let_def
      split: option.splits)

text \<open>
  A report type without a schedule table: the query is refused, and the job raises
  before it reads a row or writes a log line.
\<close>

lemma schedule_email_report_no_table:
  "get_scheduler_model env report_type = None \<Longrightarrow>
   schedule_email_report env cfg report_type schedule_id recipients slack_channel h
     = (Inl SQLAlchemyError, h)"
  by (simp add: schedule_email_report_def query_get_def io_bind_def raise_def)

text \<open>
  Claim C8, as amended. For a report type that has a schedule table (a dashboard or a
  slice): when the schedule row is missing from the table, or its active flag is false
  when the job runs, \<open>schedule_email_report\<close> writes its log line and returns
  without an exception, and makes no other call: no browser, no fetch, no email, no chat
  upload.
\<close>

theorem schedule_email_report_inactive:
  "get_scheduler_model env report_type = Some table \<Longrightarrow>
   find_schedule env table schedule_id = None \<or>
   (\<exists>schedule. find_schedule env table schedule_id = Some schedule \<and>
      \<not> Schedule_active schedule) \<Longrightarrow>
   schedule_email_report env cfg report_type schedule_id recipients slack_channel h
     = (Inr (), h @ [Log_info ''Ignoring deactivated schedule''])"
  by (auto simp: schedule_email_report_found logger_info_def call_def)

text \<open>
  Schedule 2 of the sample store is inactive and schedule 3 is missing, for dashboards
  and for slices.
\<close>

theorem schedule_email_report_inactive_witness:
  "schedule_email_report sample_env sample_config ScheduleType_dashboard 2 None None []
     = (Inr (), [Log_info ''Ignoring deactivated schedule'']) \<and>
   schedule_email_report sample_env sample_config ScheduleType_slice 2 None None []
     = (Inr (), [Log_info ''Ignoring deactivated schedule'']) \<and>
   schedule_email_report sample_env sample_config ScheduleType_dashboard 3
       (Some ''a@x.org'') (Some ''#reports'') []
     = (Inr (), [Log_info ''Ignoring deactivated schedule'']) \<and>
   schedule_email_report sample_env sample_config ScheduleType_slice 3
       (Some ''a@x.org'') (Some ''#reports'') []
     = (Inr (), [Log_info ''Ignoring deactivated schedule''])"
proof -
  have d: "get_scheduler_model sample_env ScheduleType_dashboard
       = Some ''dashboard_email_schedules''"
    and s: "get_scheduler_model sample_env ScheduleType_slice = Some ''slice_email_schedules''"
    by (simp_all add: sample_env_def)
  have missing: "\<And>t. find_schedule sample_env t 3 = None"
    by (simp add: sample_env_def)
  have inactive: "\<And>t. \<exists>schedule. find_schedule sample_env t 2 = Some schedule \<and>
      \<not> Schedule_active schedule"
    by (simp add: sample_env_def sample_schedule_def)
  show ?thesis
    using schedule_email_report_inactive[OF d, of 2 sample_config None None "[]"]
      schedule_email_report_inactive[OF s, of 2 sample_config None None "[]"]
      schedule_email_report_inactive[OF d, of 3 sample_config "Some ''a@x.org''"
        "Some ''#reports''" "[]"]
      schedule_email_report_inactive[OF s, of 3 sample_config "Some ''a@x.org''"
        "Some ''#reports''" "[]"]
      missing inactive
    by simp
qed

text \<open>
  The claim as first stated is for every invocation. A report type that is neither a
  dashboard nor a slice has no schedule table, so no row of the store has the id; the
  job does not write its log line and return, it raises from the query.
\<close>

theorem schedule_email_report_unknown_type_counterexample:
  "get_scheduler_model sample_env ScheduleType_other = None \<and>
   find_schedule sample_env ''dashboard_email_schedules'' 3 = None \<and>
   find_schedule sample_env ''slice_email_schedules'' 3 = None \<and>
   schedule_email_report sample_env sample_config ScheduleType_other 3 None None []
     = (Inl SQLAlchemyError, [])"
  by code_simp

subsection \<open>Overrides\<close>

text \<open>\<^verbatim>\<open>override or stored\<close> is the value the claim describes.\<close>

lemma py_or_resolved: "py_or override stored = resolved override stored"
  by (simp add: py_or_def truthy_def resolved_def split: option.splits list.splits)

text \<open>
  Claim C10. In \<open>schedule_email_report\<close> an override is taken by its truth value. For
  an active schedule, the recipients and the chat channel that the job writes to its
  log and hands to \<open>deliver_dashboard\<close> or \<open>deliver_slice\<close> are, each on its own, the
  override when that is a non-empty string and the stored value of the schedule when
  the override is \<^verbatim>\<open>None\<close> or the empty string: the whole run of the job is the log
  line and the delivery with these two values. So an empty-string override never clears
  the stored value and never wins over it.
\<close>

theorem schedule_email_report_overrides:
  "resolved (Some (c # cs)) stored = Some (c # cs) \<and>
   resolved (Some []) stored = stored \<and>
   resolved None stored = stored \<and>
   (get_scheduler_model env report_type = Some table \<and>
    find_schedule env table schedule_id = Some schedule \<and> Schedule_active schedule \<longrightarrow>
    schedule_email_report env cfg report_type schedule_id recipients slack_channel h =
      io_bind
        (logger_info (''Starting report for slack: '' @
           str_opt (resolved slack_channel (Schedule_slack_channel schedule)) @
           '' and recipients: '' @
           str_opt (resolved recipients (Schedule_recipients schedule)) @ ''.''))
        (\<lambda>_.
           case report_type of
             ScheduleType_dashboard \<Rightarrow>
               deliver_dashboard env cfg (Schedule_dashboard_id schedule)
                 (resolved recipients (Schedule_recipients schedule))
                 (resolved slack_channel (Schedule_slack_channel schedule))
                 (Schedule_delivery_type schedule) (Schedule_deliver_as_group schedule)
           | ScheduleType_slice \<Rightarrow>
               deliver_slice env cfg (Schedule_slice_id schedule)
                 (resolved recipients (Schedule_recipients schedule))
                 (resolved slack_channel (Schedule_slack_channel schedule))
                 (Schedule_delivery_type schedule) (Schedule_email_format schedule)
                 (Schedule_deliver_as_group schedule)
           | ScheduleType_other \<Rightarrow> raise (RuntimeError ''Unknown report type''))
        h)"
proof (intro conjI impI)
  show "resolved (Some (c # cs)) stored = Some (c # cs)"
    and "resolved (Some []) stored = stored"
    and "resolved None stored = stored"
    by (simp_all add: resolved_def)
next
  assume "get_scheduler_model env report_type = Some table \<and>
    find_schedule env table schedule_id = Some schedule \<and> Schedule_active schedule"
  then show "schedule_email_report env cfg report_type schedule_id recipients slack_channel h =
      io_bind
        (logger_info (''Starting report for slack: '' @
           str_opt (resolved slack_channel (Schedule_slack_channel schedule)) @
           '' and recipients: '' @
           str_opt (resolved recipients (Schedule_recipients schedule)) @ ''.''))
        (\<lambda>_.
           case report_type of
             ScheduleType_dashboard \<Rightarrow>
               deliver_dashboard env cfg (Schedule_dashboard_id schedule)
                 (resolved recipients (Schedule_recipients schedule))
                 (resolved slack_channel (Schedule_slack_channel schedule))
                 (Schedule_delivery_type schedule) (Schedule_deliver_as_group schedule)
           | ScheduleType_slice \<Rightarrow>
               deliver_slice env cfg (Schedule_slice_id schedule)
                 (resolved recipients (Schedule_recipients schedule))
                 (resolved slack_channel (Schedule_slack_channel schedule))
                 (Schedule_delivery_type schedule) (Schedule_email_format schedule)
                 (Schedule_deliver_as_group schedule)
           | ScheduleType_other \<Rightarrow> raise (RuntimeError ''Unknown report type''))
        h"
    using schedule_email_report_found[unfolded py_or_resolved, of env report_type table cfg
        schedule_id recipients slack_channel h]
    by simp
qed

text \<open>
  Schedule 1 of the sample store is active; it stores two recipients and the channel
  \<^verbatim>\<open>#reports\<close>. Non-empty overrides are the only addressee and the only channel;
  empty-string overrides leave the stored ones, as no override does.
\<close>

theorem schedule_email_report_overrides_witness:
  "sent_to (snd (schedule_email_report sample_env sample_config ScheduleType_dashboard 1
                   (Some ''z@x.org'') (Some ''#ops'') []))
     = [''z@x.org''] \<and>
   uploaded_to (snd (schedule_email_report sample_env sample_config ScheduleType_dashboard 1
                   (Some ''z@x.org'') (Some ''#ops'') []))
     = [''#ops''] \<and>
   sent_to (snd (schedule_email_report sample_env sample_config ScheduleType_slice 1
                   (Some []) (Some []) []))
     = [''a@x.org'', ''b@x.org''] \<and>
   uploaded_to (snd (schedule_email_report sample_env sample_config ScheduleType_slice 1
                   (Some []) (Some []) []))
     = [''#reports''] \<and>
   uploaded_to (snd (schedule_email_report sample_env sample_config ScheduleType_slice 1
                   None None []))
     = [''#reports'']"
proof -
  have d: "get_scheduler_model sample_env ScheduleType_dashboard
         = Some ''dashboard_email_schedules'' \<and>
       find_schedule sample_env ''dashboard_email_schedules'' 1 = Some sample_schedule \<and>
       Schedule_active sample_schedule"
    by (simp add: sample_env_def sample_schedule_def)
  have s: "get_scheduler_model sample_env ScheduleType_slice = Some ''slice_email_schedules'' \<and>
       find_schedule sample_env ''slice_email_schedules'' 1 = Some sample_schedule \<and>
       Schedule_active sample_schedule"
    by (simp add: sample_env_def sample_schedule_def)
  have r: "resolved (Some ''z@x.org'') (Schedule_recipients sample_schedule) = Some ''z@x.org''"
    "resolved (Some ''#ops'') (Schedule_slack_channel sample_schedule) = Some ''#ops''"
    "resolved (Some []) (Schedule_recipients sample_schedule) = Some ''a@x.org,b@x.org''"
    "resolved (Some []) (Schedule_slack_channel sample_schedule) = Some ''#reports''"
    "resolved None (Schedule_recipients sample_schedule) = Some ''a@x.org,b@x.org''"
    "resolved None (Schedule_slack_channel sample_schedule) = Some ''#reports''"
    by (simp_all add: resolved_def sample_schedule_def)
  have f: "Schedule_dashboard_id sample_schedule = 1" "Schedule_slice_id sample_schedule = 1"
    "Schedule_delivery_type sample_schedule = EmailDeliveryType_attachment"
    "Schedule_email_format sample_schedule = SliceEmailReportFormat_data"
    "Schedule_deliver_as_group sample_schedule = False"
    by (simp_all add: sample_schedule_def)
  have 1: "schedule_email_report sample_env sample_config ScheduleType_dashboard 1
         (Some ''z@x.org'') (Some ''#ops'') [] =
       io_bind
         (logger_info (''Starting report for slack: '' @ str_opt (Some ''#ops'') @
            '' and recipients: '' @ str_opt (Some ''z@x.org'') @ ''.''))
         (\<lambda>_. deliver_dashboard sample_env sample_config 1 (Some ''z@x.org'') (Some ''#ops'')
                 EmailDeliveryType_attachment False) []"
    using schedule_email_report_overrides[THEN conjunct2, THEN conjunct2, THEN conjunct2,
        rule_format, OF d, of sample_config "Some ''z@x.org''" "Some ''#ops''" "[]"]
    by (simp add: r f)
  have 2: "schedule_email_report sample_env sample_config ScheduleType_slice 1
         (Some []) (Some []) [] =
       io_bind
         (logger_info (''Starting report for slack: '' @ str_opt (Some ''#reports'') @
            '' and recipients: '' @ str_opt (Some ''a@x.org,b@x.org'') @ ''.''))
         (\<lambda>_. deliver_slice sample_env sample_config 1 (Some ''a@x.org,b@x.org'')
                 (Some ''#reports'') EmailDeliveryType_attachment
                 SliceEmailReportFormat_data False) []"
    using schedule_email_report_overrides[THEN conjunct2, THEN conjunct2, THEN conjunct2,
        rule_format, OF s, of sample_config "Some []" "Some []" "[]"]
    by (simp add: r f)
  have 3: "schedule_email_report sample_env sample_config ScheduleType_slice 1 None None [] =
       io_bind
         (logger_info (''Starting report for slack: '' @ str_opt (Some ''#reports'') @
            '' and recipients: '' @ str_opt (Some ''a@x.org,b@x.org'') @ ''.''))
         (\<lambda>_. deliver_slice sample_env sample_config 1 (Some ''a@x.org,b@x.org'')
                 (Some ''#reports'') EmailDeliveryType_attachment
                 SliceEmailReportFormat_data False) []"
    using schedule_email_report_overrides[THEN conjunct2, THEN conjunct2, THEN conjunct2,
        rule_format, OF s, of sample_config None None "[]"]
    by (simp add: r f)
  have e1: "sent_to (snd (io_bind
         (logger_info (''Starting report for slack: '' @ str_opt (Some ''#ops'') @
            '' and recipients: '' @ str_opt (Some ''z@x.org'') @ ''.''))
         (\<lambda>_. deliver_dashboard sample_env sample_config 1 (Some ''z@x.org'') (Some ''#ops'')
                 EmailDeliveryType_attachment False) [])) = [''z@x.org'']"
    by code_simp
  have e2: "uploaded_to (snd (io_bind
         (logger_info (''Starting report for slack: '' @ str_opt (Some ''#ops'') @
            '' and recipients: '' @ str_opt (Some ''z@x.org'') @ ''.''))
         (\<lambda>_. deliver_dashboard sample_env sample_config 1 (Some ''z@x.org'') (Some ''#ops'')
                 EmailDeliveryType_attachment False) [])) = [''#ops'']"
    by code_simp
  have e3: "sent_to (snd (io_bind
         (logger_info (''Starting report for slack: '' @ str_opt (Some ''#reports'') @
            '' and recipients: '' @ str_opt (Some ''a@x.org,b@x.org'') @ ''.''))
         (\<lambda>_. deliver_slice sample_env sample_config 1 (Some ''a@x.org,b@x.org'')
                 (Some ''#reports'') EmailDeliveryType_attachment
                 SliceEmailReportFormat_data False) [])) = [''a@x.org'', ''b@x.org'']"
    by code_simp
  have e4: "uploaded_to (snd (io_bind
         (logger_info (''Starting report for slack: '' @ str_opt (Some ''#reports'') @
            '' and recipients: '' @ str_opt (Some ''a@x.org,b@x.org'') @ ''.''))
         (\<lambda>_. deliver_slice sample_env sample_config 1 (Some ''a@x.org,b@x.org'')
                 (Some ''#reports'') EmailDeliveryType_attachment
                 SliceEmailReportFormat_data False) [])) = [''#reports'']"
    by code_simp
  show ?thesis
    unfolding 1 2 3 using e1 e2 e3 e4 by simp
qed


end
